theory Spec2Isabelle
  imports Main "HOL-Library.Word"
begin

section \<open>The C-string builder of \<^verbatim>\<open>c_str_builder.hpp\<close>\<close>

text \<open>
  \<^verbatim>\<open>c_str::basic_builder<CharT, NullBehavior>\<close> holds a \<^verbatim>\<open>std::basic_string\<close> member
  \<^verbatim>\<open>_m_zero_suffixed\<close> and a pointer member \<^verbatim>\<open>_m_ptr\<close>. The class decides ownership by
  comparing addresses, so the model keeps addresses: builder objects live in a store
  indexed by their own address (\<^verbatim>\<open>this\<close>), and a pointer value names the block it points to.
\<close>

subsection \<open>Pointers\<close>

text \<open>
  A \<^verbatim>\<open>const CharT *\<close> value points to the first character of one of four kinds of block:
  \<^item> \<open>Null\<close>: the null pointer;
  \<^item> \<open>ZeroAddr\<close>: \<^verbatim>\<open>std::addressof(_m_zero)\<close>, the static member of the instantiation;
  \<^item> \<open>Caller a\<close>: address \<open>a\<close> of memory that belongs to the caller (an array, the buffer of
    a string, path, vector or view);
  \<^item> \<open>Owned i\<close>: what \<^verbatim>\<open>_m_zero_suffixed.c_str()\<close> returns for the builder object at
    address \<open>i\<close>. The standard lets every modification of a string change this address; the
    class reads \<^verbatim>\<open>c_str()\<close> again after each modification, so the value stands for the
    current storage of that object's string.
\<close>

datatype pointer = Null | ZeroAddr | Caller nat | Owned nat

text \<open>\<^verbatim>\<open>enum class if_null\<close>, the second template parameter.\<close>

datatype if_null = make_zero_length | keep_null_pointer

subsection \<open>The builder object and the store\<close>

record 'c basic_builder =
  m_zero_suffixed :: "'c list"
  m_ptr :: pointer

type_synonym 'c store = "nat \<Rightarrow> 'c basic_builder"

text \<open>\<^verbatim>\<open>_m_zero_suffixed.c_str()\<close> of the object at \<open>this\<close>.\<close>

definition c_str :: "nat \<Rightarrow> pointer" where
  "c_str this = Owned this"

text \<open>Assignments to the two members of the object at \<open>this\<close>.\<close>

definition set_zero_suffixed :: "nat \<Rightarrow> 'c list \<Rightarrow> 'c store \<Rightarrow> 'c store" where
  "set_zero_suffixed this xs st = st(this := (st this)\<lparr>m_zero_suffixed := xs\<rparr>)"

definition set_ptr :: "nat \<Rightarrow> pointer \<Rightarrow> 'c store \<Rightarrow> 'c store" where
  "set_ptr this p st = st(this := (st this)\<lparr>m_ptr := p\<rparr>)"

text \<open>
  The default member initialisers \<^verbatim>\<open>_m_zero_suffixed{}\<close> and \<^verbatim>\<open>_m_ptr{}\<close> that run before
  a constructor body.
\<close>

definition member_init :: "nat \<Rightarrow> 'c store \<Rightarrow> 'c store" where
  "member_init this st = st(this := \<lparr>m_zero_suffixed = [], m_ptr = Null\<rparr>)"

subsection \<open>String-like sources\<close>

text \<open>
  A \<^verbatim>\<open>std::basic_string\<close> or \<^verbatim>\<open>std::filesystem::path\<close> of the caller: the address of its
  terminated buffer and its characters.
\<close>

record 'c ext_string =
  str_data :: nat
  str_chars :: "'c list"

text \<open>
  A contiguous sized range of the caller (array, \<^verbatim>\<open>std::array\<close>, \<^verbatim>\<open>string_view\<close>,
  \<^verbatim>\<open>span\<close>, \<^verbatim>\<open>initializer_list\<close>, \<^verbatim>\<open>vector\<close>): \<^verbatim>\<open>std::ranges::cdata\<close> and the elements.
\<close>

record 'c sized_range =
  range_data :: nat
  range_elems :: "'c list"

datatype 'c str_like =
    Nullptr
  | Pointer pointer
  | BasicString "'c ext_string"
  | Path "'c ext_string"
  | SizedRange "'c sized_range"

definition ext_c_str :: "'c ext_string \<Rightarrow> pointer" where
  "ext_c_str s = Caller (str_data s)"

definition cdata :: "'c sized_range \<Rightarrow> pointer" where
  "cdata r = Caller (range_data r)"

subsection \<open>\<^verbatim>\<open>_get_ptr\<close>\<close>

text \<open>The instantiation for \<^verbatim>\<open>std::nullptr_t\<close> (first two branches).\<close>

definition get_ptr_nullptr :: "if_null \<Rightarrow> pointer" where
  "get_ptr_nullptr nb = (case nb of make_zero_length \<Rightarrow> ZeroAddr | keep_null_pointer \<Rightarrow> Null)"

text \<open>
  The other instantiations, in the order of the \<^verbatim>\<open>if constexpr\<close> chain. The last branch
  may assign to \<^verbatim>\<open>_m_zero_suffixed\<close>, so the function returns the store as well.
\<close>

fun get_ptr :: "if_null \<Rightarrow> nat \<Rightarrow> 'w::len word str_like \<Rightarrow> 'w word store \<Rightarrow> pointer \<times> 'w word store" where
  "get_ptr nb this Nullptr st = (get_ptr_nullptr nb, st)"
| "get_ptr nb this (Pointer p) st = (if p = Null then (get_ptr_nullptr nb, st) else (p, st))"
| "get_ptr nb this (BasicString s) st = (ext_c_str s, st)"
| "get_ptr nb this (Path s) st = (ext_c_str s, st)"
| "get_ptr nb this (SizedRange r) st =
     (if range_elems r = [] then (ZeroAddr, st)
      else if last (range_elems r) \<noteq> 0
        then (let st1 = set_zero_suffixed this (range_elems r) st in (c_str this, st1))
        else (cdata r, st))"

subsection \<open>Constructors\<close>

text \<open>
  \<^verbatim>\<open>basic_builder(const StrLikeT &strLike) : _m_ptr{ _get_ptr(strLike) }\<close>. The string
  member is initialised first (it is declared first), then \<^verbatim>\<open>_get_ptr\<close> runs and its
  result initialises the pointer.
\<close>

definition construct :: "if_null \<Rightarrow> nat \<Rightarrow> 'w::len word str_like \<Rightarrow> 'w word store \<Rightarrow> 'w word store" where
  "construct nb this s st =
     (let st0 = member_init this st;
          (p, st1) = get_ptr nb this s st0
      in set_ptr this p st1)"

text \<open>\<^verbatim>\<open>basic_builder() : _m_ptr{ _get_ptr(nullptr) }\<close>\<close>

definition default_ctor :: "if_null \<Rightarrow> nat \<Rightarrow> 'w::len word store \<Rightarrow> 'w word store" where
  "default_ctor nb this st =
     (let st0 = member_init this st;
          (p, st1) = get_ptr nb this Nullptr st0
      in set_ptr this p st1)"

subsection \<open>\<^verbatim>\<open>get()\<close> and \<^verbatim>\<open>length()\<close>\<close>

definition get :: "'c store \<Rightarrow> nat \<Rightarrow> pointer" where
  "get st this = m_ptr (st this)"

text \<open>
  Caller memory is a function from addresses to the characters readable from that
  address to the end of the array it lies in (\<open>[]\<close> where nothing is readable).
  \<open>chars_at\<close> is what a scan starting at a pointer reads; \<open>None\<close> for the null pointer.
  The buffer of a \<^verbatim>\<open>std::basic_string\<close> holds its characters and a terminating null.
  A pointer \<open>Owned i\<close> is read as the string that object \<open>i\<close> holds at the time of the
  read. This is what the code reads through the pointer of the owner itself, which is
  set from \<^verbatim>\<open>c_str()\<close> after every change of the string; a copy of such a pointer kept by
  another object is only followed faithfully while the string of \<open>i\<close> is not moved or
  swapped.
\<close>

definition chars_at :: "(nat \<Rightarrow> 'w::len word list) \<Rightarrow> 'w word store \<Rightarrow> pointer \<Rightarrow> 'w word list option" where
  "chars_at mem st p =
     (case p of
        Null \<Rightarrow> None
      | ZeroAddr \<Rightarrow> Some [0]
      | Caller a \<Rightarrow> Some (mem a)
      | Owned i \<Rightarrow> Some (m_zero_suffixed (st i) @ [0]))"

text \<open>
  \<^verbatim>\<open>std::char_traits<CharT>::length\<close>: the smallest \<open>i\<close> with \<open>p[i] == CharT()\<close>. Running off
  the end of the array without finding one is undefined behaviour (\<open>None\<close>).
\<close>

fun traits_length :: "'w::len word list \<Rightarrow> nat option" where
  "traits_length [] = None"
| "traits_length (c # cs) = (if c = 0 then Some 0 else map_option Suc (traits_length cs))"

definition scan :: "(nat \<Rightarrow> 'w::len word list) \<Rightarrow> 'w word store \<Rightarrow> pointer \<Rightarrow> nat option" where
  "scan mem st p = (case chars_at mem st p of None \<Rightarrow> None | Some cs \<Rightarrow> traits_length cs)"

text \<open>\<^verbatim>\<open>length()\<close>; \<open>None\<close> is undefined behaviour.\<close>

definition builder_length :: "if_null \<Rightarrow> (nat \<Rightarrow> 'w::len word list) \<Rightarrow> 'w word store \<Rightarrow> nat \<Rightarrow> nat option" where
  "builder_length nb mem st this =
     (case nb of
        make_zero_length \<Rightarrow> scan mem st (m_ptr (st this))
      | keep_null_pointer \<Rightarrow>
          (if m_ptr (st this) \<noteq> Null then scan mem st (m_ptr (st this)) else Some 0))"

text \<open>The caller's memory holds the elements of a range at its data address.\<close>

definition range_in_mem :: "(nat \<Rightarrow> 'c list) \<Rightarrow> 'c sized_range \<Rightarrow> bool" where
  "range_in_mem mem r = (take (length (range_elems r)) (mem (range_data r)) = range_elems r)"

text \<open>The caller's memory holds the terminated buffer of a string or path.\<close>

definition string_in_mem :: "(nat \<Rightarrow> 'w::len word list) \<Rightarrow> 'w word ext_string \<Rightarrow> bool" where
  "string_in_mem mem s = (mem (str_data s) = str_chars s @ [0])"

subsection \<open>Copy and move\<close>

text \<open>
  \<^verbatim>\<open>_copy_used_member\<close>: the test \<^verbatim>\<open>other._m_zero_suffixed.c_str() == other._m_ptr\<close>, then
  either the string is copy-assigned and the pointer read from the own string, or the
  pointer alone is copied.
\<close>

definition copy_used_member :: "nat \<Rightarrow> nat \<Rightarrow> 'c store \<Rightarrow> 'c store" where
  "copy_used_member this other st =
     (if c_str other = m_ptr (st other)
      then (let st1 = set_zero_suffixed this (m_zero_suffixed (st other)) st
            in set_ptr this (c_str this) st1)
      else set_ptr this (m_ptr (st other)) st)"

text \<open>
  \<^verbatim>\<open>_move_used_member\<close>: the string is move-assigned and the source string then assigned
  \<^verbatim>\<open>{}\<close>; at the end the source pointer is reset according to \<^verbatim>\<open>null_behavior\<close>.
\<close>

definition move_used_member :: "if_null \<Rightarrow> nat \<Rightarrow> nat \<Rightarrow> 'c store \<Rightarrow> 'c store" where
  "move_used_member nb this other st =
     (let st3 =
        (if c_str other = m_ptr (st other)
         then (let st1 = set_zero_suffixed this (m_zero_suffixed (st other)) st;
                   st2 = set_zero_suffixed other [] st1
               in set_ptr this (c_str this) st2)
         else set_ptr this (m_ptr (st other)) st)
      in (case nb of
            make_zero_length \<Rightarrow> set_ptr other ZeroAddr st3
          | keep_null_pointer \<Rightarrow> set_ptr other Null st3))"

text \<open>Copy and move constructor: the default member initialisers, then the body.\<close>

definition copy_ctor :: "nat \<Rightarrow> nat \<Rightarrow> 'c store \<Rightarrow> 'c store" where
  "copy_ctor this other st = copy_used_member this other (member_init this st)"

definition move_ctor :: "if_null \<Rightarrow> nat \<Rightarrow> nat \<Rightarrow> 'c store \<Rightarrow> 'c store" where
  "move_ctor nb this other st = move_used_member nb this other (member_init this st)"

text \<open>Copy and move assignment: \<^verbatim>\<open>if (this != std::addressof(other))\<close>.\<close>

definition copy_assign :: "nat \<Rightarrow> nat \<Rightarrow> 'c store \<Rightarrow> 'c store" where
  "copy_assign this other st = (if this \<noteq> other then copy_used_member this other st else st)"

definition move_assign :: "if_null \<Rightarrow> nat \<Rightarrow> nat \<Rightarrow> 'c store \<Rightarrow> 'c store" where
  "move_assign nb this other st = (if this \<noteq> other then move_used_member nb this other st else st)"

subsection \<open>\<^verbatim>\<open>swap\<close>\<close>

definition swap_builder :: "nat \<Rightarrow> nat \<Rightarrow> 'c store \<Rightarrow> 'c store" where
  "swap_builder this other st =
     (if this = other then st
      else
        (let thisBufUsed = (c_str this = m_ptr (st this));
             otherBufUsed = (c_str other = m_ptr (st other))
         in if \<not> thisBufUsed \<and> \<not> otherBufUsed
            then set_ptr other (m_ptr (st this)) (set_ptr this (m_ptr (st other)) st)
            else
              (let st1 = set_zero_suffixed other (m_zero_suffixed (st this))
                           (set_zero_suffixed this (m_zero_suffixed (st other)) st)
               in if thisBufUsed \<and> otherBufUsed
                  then set_ptr other (c_str other) (set_ptr this (c_str this) st1)
                  else if thisBufUsed
                  then set_ptr other (c_str other) (set_ptr this (m_ptr (st1 other)) st1)
                  else set_ptr this (c_str this) (set_ptr other (m_ptr (st1 this)) st1))))"

subsection \<open>Sequences of operations\<close>

text \<open>
  The operations a program can apply to builders of one instantiation. A constructor
  needs storage that holds no builder yet, every other operation needs constructed
  objects; \<open>exec\<close> keeps the set of constructed objects and skips an operation that
  breaks this rule.
\<close>

datatype 'c operation =
    Construct nat "'c str_like"
  | Default nat
  | CopyCtor nat nat
  | MoveCtor nat nat
  | CopyAssign nat nat
  | MoveAssign nat nat
  | Swap nat nat
  | Destroy nat

fun exec :: "if_null \<Rightarrow> nat set \<times> 'w::len word store \<Rightarrow> 'w word operation \<Rightarrow> nat set \<times> 'w word store" where
  "exec nb (L, st) (Construct this s) =
     (if this \<in> L then (L, st) else (insert this L, construct nb this s st))"
| "exec nb (L, st) (Default this) =
     (if this \<in> L then (L, st) else (insert this L, default_ctor nb this st))"
| "exec nb (L, st) (CopyCtor this other) =
     (if this \<in> L \<or> other \<notin> L then (L, st) else (insert this L, copy_ctor this other st))"
| "exec nb (L, st) (MoveCtor this other) =
     (if this \<in> L \<or> other \<notin> L then (L, st) else (insert this L, move_ctor nb this other st))"
| "exec nb (L, st) (CopyAssign this other) =
     (if this \<in> L \<and> other \<in> L then (L, copy_assign this other st) else (L, st))"
| "exec nb (L, st) (MoveAssign this other) =
     (if this \<in> L \<and> other \<in> L then (L, move_assign nb this other st) else (L, st))"
| "exec nb (L, st) (Swap this other) =
     (if this \<in> L \<and> other \<in> L then (L, swap_builder this other st) else (L, st))"
| "exec nb (L, st) (Destroy this) = (L - {this}, st)"

definition run :: "if_null \<Rightarrow> 'w::len word store \<Rightarrow> 'w word operation list \<Rightarrow> nat set \<times> 'w word store" where
  "run nb st0 ops = foldl (exec nb) ({}, st0) ops"

subsection \<open>Invariants\<close>

text \<open>
  Invariant I2 for the object at \<open>i\<close>: a non-empty string member is the one the pointer
  refers to.
\<close>

definition I2 :: "'c store \<Rightarrow> nat \<Rightarrow> bool" where
  "I2 st i = (m_zero_suffixed (st i) = [] \<or> m_ptr (st i) = c_str i)"

text \<open>No constructed object holds a null pointer.\<close>

definition never_null :: "nat set \<times> 'c store \<Rightarrow> bool" where
  "never_null s = (\<forall>i \<in> fst s. m_ptr (snd s i) \<noteq> Null)"

section \<open>Properties\<close>

subsection \<open>What a constructor leaves in the store\<close>

lemmas store_defs = set_ptr_def set_zero_suffixed_def member_init_def c_str_def

lemma construct_other: "j \<noteq> this \<Longrightarrow> construct nb this s st j = st j"
  by (cases s) (auto simp: construct_def store_defs Let_def)

lemma construct_SizedRange_this:
  "construct nb this (SizedRange r) st this =
     (if range_elems r = [] then \<lparr>m_zero_suffixed = [], m_ptr = ZeroAddr\<rparr>
      else if last (range_elems r) \<noteq> 0 then \<lparr>m_zero_suffixed = range_elems r, m_ptr = Owned this\<rparr>
      else \<lparr>m_zero_suffixed = [], m_ptr = Caller (range_data r)\<rparr>)"
  by (simp add: construct_def store_defs Let_def cdata_def)

lemma construct_Nullptr_this:
  "construct nb this Nullptr st this = \<lparr>m_zero_suffixed = [], m_ptr = get_ptr_nullptr nb\<rparr>"
  by (simp add: construct_def store_defs)

lemma construct_Pointer_this:
  "construct nb this (Pointer p) st this =
     \<lparr>m_zero_suffixed = [], m_ptr = (if p = Null then get_ptr_nullptr nb else p)\<rparr>"
  by (simp add: construct_def store_defs)

lemma construct_BasicString_this:
  "construct nb this (BasicString e) st this = \<lparr>m_zero_suffixed = [], m_ptr = Caller (str_data e)\<rparr>"
  by (simp add: construct_def store_defs ext_c_str_def)

lemma construct_Path_this:
  "construct nb this (Path e) st this = \<lparr>m_zero_suffixed = [], m_ptr = Caller (str_data e)\<rparr>"
  by (simp add: construct_def store_defs ext_c_str_def)

lemmas construct_this = construct_SizedRange_this construct_Nullptr_this construct_Pointer_this
  construct_BasicString_this construct_Path_this

lemma allocates_iff:
  "m_zero_suffixed (construct nb this s st this) \<noteq> [] \<longleftrightarrow>
     (\<exists>r. s = SizedRange r \<and> range_elems r \<noteq> [] \<and> last (range_elems r) \<noteq> 0)"
  by (cases s) (auto simp: construct_this)

lemma default_ctor_eq: "default_ctor nb this st = construct nb this Nullptr st"
  by (simp add: default_ctor_def construct_def)

lemma member_init_other: "j \<noteq> this \<Longrightarrow> member_init this st j = st j"
  by (simp add: member_init_def)

lemma member_init_this: "member_init this st this = \<lparr>m_zero_suffixed = [], m_ptr = Null\<rparr>"
  by (simp add: member_init_def)

subsection \<open>Reading through a pointer\<close>

lemma scan_ZeroAddr: "scan mem st ZeroAddr = Some 0"
  by (simp add: scan_def chars_at_def)

lemma chars_at_upd_other:
  "p \<noteq> Owned i \<Longrightarrow> chars_at mem (st(i := b)) p = chars_at mem st p"
  by (cases p) (auto simp: chars_at_def)

lemma chars_at_Owned: "chars_at mem st (Owned i) = Some (m_zero_suffixed (st i) @ [0])"
  by (simp add: chars_at_def)

lemma builder_length_cong:
  "m_ptr (st' i) = p' \<Longrightarrow> m_ptr (st j) = p \<Longrightarrow> chars_at mem st' p' = chars_at mem st p \<Longrightarrow>
   builder_length nb mem st' i = builder_length nb mem st j"
  by (cases nb; cases p; cases p') (auto simp: builder_length_def scan_def chars_at_def)

lemma builder_length_scan:
  "m_ptr (st i) \<noteq> Null \<Longrightarrow> builder_length nb mem st i = scan mem st (m_ptr (st i))"
  by (cases nb) (simp_all add: builder_length_def)

lemma builder_length_after_nullptr:
  "m_ptr (st i) = get_ptr_nullptr nb \<Longrightarrow> builder_length nb mem st i = Some 0"
  by (cases nb) (simp_all add: builder_length_def get_ptr_nullptr_def scan_ZeroAddr)

lemma traits_length_takeWhile:
  "traits_length cs = (if 0 \<in> set cs then Some (length (takeWhile (\<lambda>c. c \<noteq> 0) cs)) else None)"
  by (induction cs) auto

lemma first_null_index:
  "k < length xs \<Longrightarrow> xs ! k = 0 \<Longrightarrow> \<forall>j<k. xs ! j \<noteq> 0 \<Longrightarrow>
   length (takeWhile (\<lambda>c. c \<noteq> 0) xs) = k"
proof (induction xs arbitrary: k)
  case Nil
  then show ?case by simp
next
  case (Cons x xs)
  show ?case
  proof (cases k)
    case 0
    with Cons.prems show ?thesis by simp
  next
    case (Suc n)
    with Cons.prems have "x \<noteq> 0" by auto
    moreover from Suc Cons.prems have "n < length xs" "xs ! n = 0" by auto
    moreover from Suc Cons.prems have "\<forall>j<n. xs ! j \<noteq> 0" by auto
    ultimately show ?thesis using Cons.IH [of n] Suc by simp
  qed
qed

lemma takeWhile_first_null:
  "0 \<in> set cs \<Longrightarrow>
     length (takeWhile (\<lambda>c. c \<noteq> 0) cs) < length cs
   \<and> cs ! length (takeWhile (\<lambda>c. c \<noteq> 0) cs) = 0
   \<and> (\<forall>j < length (takeWhile (\<lambda>c. c \<noteq> 0) cs). cs ! j \<noteq> 0)"
proof (induction cs)
  case Nil
  then show ?case by simp
next
  case (Cons c cs)
  show ?case
  proof (cases "c = 0")
    case True
    then show ?thesis by simp
  next
    case False
    with Cons have IH: "length (takeWhile (\<lambda>c. c \<noteq> 0) cs) < length cs
       \<and> cs ! length (takeWhile (\<lambda>c. c \<noteq> 0) cs) = 0
       \<and> (\<forall>j < length (takeWhile (\<lambda>c. c \<noteq> 0) cs). cs ! j \<noteq> 0)" by simp
    with False show ?thesis by (auto simp: nth_Cons split: nat.splits)
  qed
qed

lemma scan_terminated:
  "chars_at mem st p = Some cs \<Longrightarrow> 0 \<in> set cs \<Longrightarrow>
   scan mem st p = Some (length (takeWhile (\<lambda>c. c \<noteq> 0) cs))"
  by (simp add: scan_def traits_length_takeWhile)

subsection \<open>What copy, move and swap leave in the store\<close>

lemma copy_used_member_this:
  "this \<noteq> other \<Longrightarrow> copy_used_member this other st this =
     (if m_ptr (st other) = Owned other
      then \<lparr>m_zero_suffixed = m_zero_suffixed (st other), m_ptr = Owned this\<rparr>
      else (st this)\<lparr>m_ptr := m_ptr (st other)\<rparr>)"
  by (auto simp: copy_used_member_def store_defs Let_def)

lemma copy_used_member_other:
  "j \<noteq> this \<Longrightarrow> copy_used_member this other st j = st j"
  by (auto simp: copy_used_member_def store_defs Let_def)

lemma move_used_member_this:
  "this \<noteq> other \<Longrightarrow> move_used_member nb this other st this =
     (if m_ptr (st other) = Owned other
      then \<lparr>m_zero_suffixed = m_zero_suffixed (st other), m_ptr = Owned this\<rparr>
      else (st this)\<lparr>m_ptr := m_ptr (st other)\<rparr>)"
  by (cases nb) (auto simp: move_used_member_def store_defs Let_def)

lemma move_used_member_source:
  "this \<noteq> other \<Longrightarrow> move_used_member nb this other st other =
     \<lparr>m_zero_suffixed = (if m_ptr (st other) = Owned other then [] else m_zero_suffixed (st other)),
      m_ptr = get_ptr_nullptr nb\<rparr>"
  by (cases nb) (auto simp: move_used_member_def store_defs Let_def get_ptr_nullptr_def)

lemma move_used_member_other:
  "j \<noteq> this \<Longrightarrow> j \<noteq> other \<Longrightarrow> move_used_member nb this other st j = st j"
  by (cases nb) (auto simp: move_used_member_def store_defs Let_def)

lemma swap_builder_this:
  "a \<noteq> b \<Longrightarrow> swap_builder a b st a =
     (if m_ptr (st a) \<noteq> Owned a \<and> m_ptr (st b) \<noteq> Owned b
      then (st a)\<lparr>m_ptr := m_ptr (st b)\<rparr>
      else \<lparr>m_zero_suffixed = m_zero_suffixed (st b),
            m_ptr = (if m_ptr (st b) = Owned b then Owned a else m_ptr (st b))\<rparr>)"
  by (auto simp: swap_builder_def store_defs Let_def)

lemma swap_builder_that:
  "a \<noteq> b \<Longrightarrow> swap_builder a b st b =
     (if m_ptr (st a) \<noteq> Owned a \<and> m_ptr (st b) \<noteq> Owned b
      then (st b)\<lparr>m_ptr := m_ptr (st a)\<rparr>
      else \<lparr>m_zero_suffixed = m_zero_suffixed (st a),
            m_ptr = (if m_ptr (st a) = Owned a then Owned b else m_ptr (st a))\<rparr>)"
  by (auto simp: swap_builder_def store_defs Let_def)

lemma swap_builder_other:
  "j \<noteq> a \<Longrightarrow> j \<noteq> b \<Longrightarrow> swap_builder a b st j = st j"
  by (auto simp: swap_builder_def store_defs Let_def)

lemma swap_builder_self: "swap_builder a a st = st"
  by (simp add: swap_builder_def)


subsection \<open>Construction from a contiguous sized range\<close>

text \<open>
  Claim C1. Construction from a contiguous sized range of characters follows the decision
  of the last branch of \<^verbatim>\<open>_get_ptr\<close>: for an empty range \<^verbatim>\<open>get()\<close> is the address of the
  static zero value (not null, under either null behaviour) and the string member stays
  empty; for a non-empty range \<^verbatim>\<open>get()\<close> is the range's own data address exactly when
  its last element is the null character, and then nothing is copied and the builder
  does not own what it points to; otherwise all elements, embedded null characters
  included, are assigned to the string member, whose buffer ends with a null character,
  and \<^verbatim>\<open>get()\<close> is that buffer. No other object changes, and over all kinds of source
  the string member is non-empty after construction only on this copying path.
\<close>

theorem range_construction:
  fixes st :: "'w::len word store"
  shows "let xs = range_elems r; st' = construct nb this (SizedRange r) st in
     (xs = [] \<longrightarrow> get st' this = ZeroAddr \<and> get st' this \<noteq> Null \<and> m_zero_suffixed (st' this) = [])
   \<and> (xs \<noteq> [] \<longrightarrow> (get st' this = cdata r \<longleftrightarrow> last xs = 0))
   \<and> (xs \<noteq> [] \<and> last xs = 0 \<longrightarrow>
        get st' this = cdata r \<and> m_zero_suffixed (st' this) = [] \<and> get st' this \<noteq> c_str this)
   \<and> (xs \<noteq> [] \<and> last xs \<noteq> 0 \<longrightarrow>
        m_zero_suffixed (st' this) = xs \<and> get st' this = c_str this
        \<and> chars_at mem st' (get st' this) = Some (xs @ [0]))
   \<and> (\<forall>j. j \<noteq> this \<longrightarrow> st' j = st j)
   \<and> (\<forall>s. m_zero_suffixed (construct nb this s st this) \<noteq> [] \<longleftrightarrow>
        (\<exists>r'. s = SizedRange r' \<and> range_elems r' \<noteq> [] \<and> last (range_elems r') \<noteq> 0))"
  unfolding Let_def
  by (simp add: construct_SizedRange_this get_def cdata_def c_str_def chars_at_def
      construct_other allocates_iff)

theorem range_construction_witness:
  "get (construct make_zero_length 0 (SizedRange \<lparr>range_data = 100, range_elems = []\<rparr>)
        (\<lambda>_. \<lparr>m_zero_suffixed = [1 :: 8 word], m_ptr = Null\<rparr>)) 0 = ZeroAddr
   \<and> get (construct keep_null_pointer 0 (SizedRange \<lparr>range_data = 100, range_elems = [65, 66, 67, 0]\<rparr>)
        (\<lambda>_. \<lparr>m_zero_suffixed = [1 :: 8 word], m_ptr = Null\<rparr>)) 0 = Caller 100
   \<and> m_zero_suffixed (construct make_zero_length 0 (SizedRange \<lparr>range_data = 100, range_elems = [65, 66, 67]\<rparr>)
        (\<lambda>_. \<lparr>m_zero_suffixed = [1 :: 8 word], m_ptr = Null\<rparr>) 0) = [65, 66, 67]"
  using
    range_construction [of "\<lparr>range_data = 100, range_elems = []\<rparr>" make_zero_length 0
      "\<lambda>_. \<lparr>m_zero_suffixed = [1 :: 8 word], m_ptr = Null\<rparr>" "\<lambda>_. []"]
    range_construction [of "\<lparr>range_data = 100, range_elems = [65, 66, 67, 0]\<rparr>" keep_null_pointer 0
      "\<lambda>_. \<lparr>m_zero_suffixed = [1 :: 8 word], m_ptr = Null\<rparr>" "\<lambda>_. []"]
    range_construction [of "\<lparr>range_data = 100, range_elems = [65, 66, 67]\<rparr>" make_zero_length 0
      "\<lambda>_. \<lparr>m_zero_suffixed = [1 :: 8 word], m_ptr = Null\<rparr>" "\<lambda>_. []"]
  by (simp add: Let_def cdata_def)

subsection \<open>Construction from a null source\<close>

text \<open>
  Claim C2. For every character width, a builder constructed from \<^verbatim>\<open>nullptr\<close>, from a
  null pointer to the character type, or by the default constructor (all three leave the
  same store) has an empty string member and, under
  \<^verbatim>\<open>make_zero_length\<close>, a non-null \<^verbatim>\<open>get()\<close> that is the address of the static zero value
  and \<^verbatim>\<open>length()\<close> 0, and under \<^verbatim>\<open>keep_null_pointer\<close> a null \<^verbatim>\<open>get()\<close> and \<^verbatim>\<open>length()\<close> 0.
\<close>

theorem null_source:
  fixes st :: "'w::len word store"
  shows "\<forall>st' \<in> {construct nb this Nullptr st, construct nb this (Pointer Null) st,
                  default_ctor nb this st}.
           (nb = make_zero_length \<longrightarrow>
              get st' this = ZeroAddr \<and> get st' this \<noteq> Null \<and> builder_length nb mem st' this = Some 0)
         \<and> (nb = keep_null_pointer \<longrightarrow>
              get st' this = Null \<and> builder_length nb mem st' this = Some 0)
         \<and> m_zero_suffixed (st' this) = []
         \<and> st' = construct nb this Nullptr st"
proof -
  have "construct nb this (Pointer Null) st = construct nb this Nullptr st"
    by (simp add: construct_def)
  then show ?thesis
    by (simp add: default_ctor_eq construct_this get_def builder_length_def get_ptr_nullptr_def
        scan_ZeroAddr)
qed

theorem null_source_witness:
  "get (default_ctor make_zero_length 3 (\<lambda>_. \<lparr>m_zero_suffixed = [1 :: 8 word], m_ptr = Caller 5\<rparr>)) 3 = ZeroAddr
   \<and> get (construct keep_null_pointer 3 (Pointer Null) (\<lambda>_. \<lparr>m_zero_suffixed = [1 :: 16 word], m_ptr = Caller 5\<rparr>)) 3 = Null
   \<and> builder_length keep_null_pointer (\<lambda>_. [])
        (construct keep_null_pointer 3 Nullptr (\<lambda>_. \<lparr>m_zero_suffixed = [1 :: 32 word], m_ptr = Caller 5\<rparr>)) 3 = Some 0"
  using
    null_source [of make_zero_length 3 "\<lambda>_. \<lparr>m_zero_suffixed = [1 :: 8 word], m_ptr = Caller 5\<rparr>" "\<lambda>_. []"]
    null_source [of keep_null_pointer 3 "\<lambda>_. \<lparr>m_zero_suffixed = [1 :: 16 word], m_ptr = Caller 5\<rparr>" "\<lambda>_. []"]
    null_source [of keep_null_pointer 3 "\<lambda>_. \<lparr>m_zero_suffixed = [1 :: 32 word], m_ptr = Caller 5\<rparr>" "\<lambda>_. []"]
  by simp

subsection \<open>Invariant I2\<close>

text \<open>
  Every constructor establishes I2 for the new object, the move constructor keeps it for
  the source, \<^verbatim>\<open>swap\<close> keeps it for both objects, and an assignment keeps it for the
  destination when the source owns its string or the destination's string is empty.
\<close>

lemma I2_construct: "I2 (construct nb this s st) this"
  by (cases s) (simp_all add: I2_def construct_this c_str_def)

lemma I2_copy_ctor: "this \<noteq> other \<Longrightarrow> I2 (copy_ctor this other st) this"
  by (simp add: I2_def copy_ctor_def copy_used_member_this member_init_other member_init_this c_str_def)

lemma I2_move_ctor:
  "this \<noteq> other \<Longrightarrow> I2 st other \<Longrightarrow>
   I2 (move_ctor nb this other st) this \<and> I2 (move_ctor nb this other st) other"
  by (auto simp: I2_def move_ctor_def move_used_member_this move_used_member_source
      member_init_other member_init_this c_str_def)

lemma I2_swap_builder:
  "I2 st a \<Longrightarrow> I2 st b \<Longrightarrow> I2 (swap_builder a b st) a \<and> I2 (swap_builder a b st) b"
  by (cases "a = b")
     (auto simp: I2_def swap_builder_self swap_builder_this swap_builder_that c_str_def)

lemma I2_copy_assign:
  "get st other = c_str other \<or> m_zero_suffixed (st this) = [] \<Longrightarrow> I2 st this \<Longrightarrow>
   I2 (copy_assign this other st) this"
  by (cases "this = other")
     (auto simp: I2_def copy_assign_def copy_used_member_this get_def c_str_def)

lemma I2_move_assign:
  "get st other = c_str other \<or> m_zero_suffixed (st this) = [] \<Longrightarrow> I2 st this \<Longrightarrow>
   I2 (move_assign nb this other st) this"
  by (cases "this = other")
     (auto simp: I2_def move_assign_def move_used_member_this get_def c_str_def)

text \<open>
  Claim C3 says that I2 holds after any construction followed by any copies, moves and
  swaps. The assignment operators break it: assigning a builder that does not own its
  string to one that does runs the second branch of \<^verbatim>\<open>_copy_used_member\<close> or
  \<^verbatim>\<open>_move_used_member\<close>, which sets the pointer alone. For \<^verbatim>\<open>a\<close> built from the array
  \<^verbatim>\<open>{'A'}\<close> and a default-constructed \<^verbatim>\<open>b\<close>, after \<^verbatim>\<open>a = b\<close> and after
  \<^verbatim>\<open>a = std::move(b)\<close> the string member of \<^verbatim>\<open>a\<close> still holds \<^verbatim>\<open>A\<close> while \<^verbatim>\<open>get()\<close> is the
  static zero value.
\<close>

theorem I2_broken_by_assignment:
  "(let (L, st) = run make_zero_length (\<lambda>_. \<lparr>m_zero_suffixed = [], m_ptr = Null\<rparr>)
        [Construct 0 (SizedRange \<lparr>range_data = 100, range_elems = [65 :: 8 word]\<rparr>),
         Default 1, CopyAssign 0 1]
    in 0 \<in> L \<and> m_zero_suffixed (st 0) = [65] \<and> get st 0 = ZeroAddr \<and> get st 0 \<noteq> c_str 0
       \<and> \<not> I2 st 0)
   \<and> (let (L, st) = run make_zero_length (\<lambda>_. \<lparr>m_zero_suffixed = [], m_ptr = Null\<rparr>)
        [Construct 0 (SizedRange \<lparr>range_data = 100, range_elems = [65 :: 8 word]\<rparr>),
         Default 1, MoveAssign 0 1]
    in 0 \<in> L \<and> m_zero_suffixed (st 0) = [65] \<and> get st 0 = ZeroAddr \<and> get st 0 \<noteq> c_str 0
       \<and> \<not> I2 st 0)"
  by (simp add: run_def construct_def default_ctor_def copy_assign_def move_assign_def
      copy_used_member_def move_used_member_def store_defs get_def I2_def get_ptr_nullptr_def)

subsection \<open>Construction from a pointer, a string or a path\<close>

text \<open>
  Claim C4. For a non-null pointer to the character type \<^verbatim>\<open>get()\<close> is that pointer value
  itself, and the string member stays empty. For a \<^verbatim>\<open>std::basic_string\<close> or a
  \<^verbatim>\<open>std::filesystem::path\<close> \<^verbatim>\<open>get()\<close> is the \<^verbatim>\<open>c_str()\<close> of that source object, the string
  member stays empty and the builder does not own what it points to. No other object
  changes.
\<close>

theorem trusted_sources:
  fixes st :: "'w::len word store"
  shows "(p \<noteq> Null \<longrightarrow>
            (let st' = construct nb this (Pointer p) st
             in get st' this = p \<and> m_zero_suffixed (st' this) = []))
       \<and> (\<forall>s \<in> {BasicString e, Path e}.
            (let st' = construct nb this s st
             in get st' this = ext_c_str e \<and> m_zero_suffixed (st' this) = []
                \<and> get st' this \<noteq> c_str this))
       \<and> (\<forall>s \<in> {Pointer p, BasicString e, Path e}. \<forall>j. j \<noteq> this \<longrightarrow> construct nb this s st j = st j)"
  by (simp add: construct_this construct_other get_def ext_c_str_def c_str_def Let_def)

theorem trusted_sources_witness:
  "get (construct make_zero_length 0 (Pointer (Caller 7)) (\<lambda>_. \<lparr>m_zero_suffixed = [1 :: 8 word], m_ptr = Null\<rparr>)) 0 = Caller 7
   \<and> get (construct make_zero_length 0 (BasicString \<lparr>str_data = 9, str_chars = [65, 66, 67]\<rparr>)
        (\<lambda>_. \<lparr>m_zero_suffixed = [1 :: 8 word], m_ptr = Null\<rparr>)) 0 = Caller 9
   \<and> get (construct make_zero_length 0 (Path \<lparr>str_data = 9, str_chars = [65, 66, 67]\<rparr>)
        (\<lambda>_. \<lparr>m_zero_suffixed = [1 :: 8 word], m_ptr = Null\<rparr>)) 0 = Caller 9"
  using trusted_sources [of "Caller 7" make_zero_length 0
      "\<lambda>_. \<lparr>m_zero_suffixed = [1 :: 8 word], m_ptr = Null\<rparr>" "\<lparr>str_data = 9, str_chars = [65, 66, 67]\<rparr>"]
  by (simp add: Let_def ext_c_str_def)

subsection \<open>Move construction and move assignment\<close>

lemma move_one:
  fixes st :: "'w::len word store"
  assumes ne: "this \<noteq> other"
    and t_eq: "st' this = (if m_ptr (st other) = Owned other
      then \<lparr>m_zero_suffixed = m_zero_suffixed (st other), m_ptr = Owned this\<rparr>
      else (b :: 'w word basic_builder)\<lparr>m_ptr := m_ptr (st other)\<rparr>)"
    and o_eq: "st' other =
      \<lparr>m_zero_suffixed = (if m_ptr (st other) = Owned other then [] else m_zero_suffixed (st other)),
       m_ptr = get_ptr_nullptr nb\<rparr>"
    and rest: "\<And>j. j \<noteq> this \<Longrightarrow> j \<noteq> other \<Longrightarrow> st' j = st j"
  shows "(get st other = c_str other \<longrightarrow>
            m_zero_suffixed (st' this) = m_zero_suffixed (st other)
          \<and> m_zero_suffixed (st' other) = []
          \<and> get st' this = c_str this
          \<and> chars_at mem st' (get st' this) = chars_at mem st (get st other))
       \<and> (get st other \<noteq> c_str other \<longrightarrow> get st' this = get st other)
       \<and> get st' other = get_ptr_nullptr nb
       \<and> get st' other = get (default_ctor nb other st) other
       \<and> builder_length nb mem st' other = Some 0
       \<and> builder_length nb mem st' other = builder_length nb mem (default_ctor nb other st) other
       \<and> (\<forall>j. j \<noteq> this \<and> j \<noteq> other \<longrightarrow> st' j = st j)"
proof -
  have d: "m_ptr (default_ctor nb other st other) = get_ptr_nullptr nb"
    by (simp add: default_ctor_eq construct_this)
  have l: "builder_length nb mem st' other = Some 0"
    by (rule builder_length_after_nullptr) (simp add: o_eq)
  have l': "builder_length nb mem (default_ctor nb other st) other = Some 0"
    by (rule builder_length_after_nullptr) (rule d)
  from t_eq o_eq rest d l l' show ?thesis
    by (simp add: get_def c_str_def chars_at_Owned)
qed

text \<open>
  Claim C5. For a move between two distinct objects, by the constructor or by
  assignment: when the source owns its string, the destination's string member receives
  the characters, the source's string member becomes empty and the destination's pointer
  is its own \<^verbatim>\<open>c_str()\<close>, reading the same characters as the source did; otherwise
  the destination's pointer is the source's pointer value. In both cases the source
  afterwards has the \<^verbatim>\<open>get()\<close> and \<^verbatim>\<open>length()\<close> of a builder constructed from
  \<^verbatim>\<open>nullptr\<close> under the same null behaviour, and no third object changes. Moving an
  object to itself by assignment changes nothing.
\<close>

theorem move_semantics:
  fixes st :: "'w::len word store"
  shows "(this \<noteq> other \<longrightarrow>
          (\<forall>st' \<in> {move_ctor nb this other st, move_assign nb this other st}.
             (get st other = c_str other \<longrightarrow>
                m_zero_suffixed (st' this) = m_zero_suffixed (st other)
              \<and> m_zero_suffixed (st' other) = []
              \<and> get st' this = c_str this
              \<and> chars_at mem st' (get st' this) = chars_at mem st (get st other))
           \<and> (get st other \<noteq> c_str other \<longrightarrow> get st' this = get st other)
           \<and> get st' other = get_ptr_nullptr nb
           \<and> get st' other = get (default_ctor nb other st) other
           \<and> builder_length nb mem st' other = Some 0
           \<and> builder_length nb mem st' other = builder_length nb mem (default_ctor nb other st) other
           \<and> (\<forall>j. j \<noteq> this \<and> j \<noteq> other \<longrightarrow> st' j = st j)))
       \<and> move_assign nb this this st = st"
proof (rule conjI; (intro impI ballI)?)
  show "move_assign nb this this st = st" by (simp add: move_assign_def)
next
  fix st' assume ne: "this \<noteq> other"
    and "st' \<in> {move_ctor nb this other st, move_assign nb this other st}"
  then consider "st' = move_ctor nb this other st" | "st' = move_assign nb this other st" by auto
  then show "(get st other = c_str other \<longrightarrow>
                m_zero_suffixed (st' this) = m_zero_suffixed (st other)
              \<and> m_zero_suffixed (st' other) = []
              \<and> get st' this = c_str this
              \<and> chars_at mem st' (get st' this) = chars_at mem st (get st other))
           \<and> (get st other \<noteq> c_str other \<longrightarrow> get st' this = get st other)
           \<and> get st' other = get_ptr_nullptr nb
           \<and> get st' other = get (default_ctor nb other st) other
           \<and> builder_length nb mem st' other = Some 0
           \<and> builder_length nb mem st' other = builder_length nb mem (default_ctor nb other st) other
           \<and> (\<forall>j. j \<noteq> this \<and> j \<noteq> other \<longrightarrow> st' j = st j)"
  proof cases
    case 1
    show ?thesis
      by (rule move_one [OF ne, where b = "\<lparr>m_zero_suffixed = [], m_ptr = Null\<rparr>"])
         (use ne in \<open>simp_all add: 1 move_ctor_def move_used_member_this move_used_member_source
            move_used_member_other member_init_other member_init_this\<close>)
  next
    case 2
    show ?thesis
      by (rule move_one [OF ne, where b = "st this"])
         (use ne in \<open>simp_all add: 2 move_assign_def move_used_member_this move_used_member_source
            move_used_member_other\<close>)
  qed
qed

theorem move_semantics_witness:
  "m_zero_suffixed (move_ctor keep_null_pointer 0 1 ((\<lambda>_. \<lparr>m_zero_suffixed = [], m_ptr = Caller 4\<rparr>)
        (1 := \<lparr>m_zero_suffixed = [65, 66 :: 8 word], m_ptr = Owned 1\<rparr>)) 0) = [65, 66]
   \<and> get (move_assign keep_null_pointer 0 1 ((\<lambda>_. \<lparr>m_zero_suffixed = [], m_ptr = Caller 4\<rparr>)
        (1 := \<lparr>m_zero_suffixed = [65, 66 :: 8 word], m_ptr = Owned 1\<rparr>))) 1 = Null
   \<and> get (move_assign make_zero_length 0 2 ((\<lambda>_. \<lparr>m_zero_suffixed = [], m_ptr = Caller 4\<rparr>)
        (1 := \<lparr>m_zero_suffixed = [65, 66 :: 8 word], m_ptr = Owned 1\<rparr>))) 0 = Caller 4"
  using
    move_semantics [of 0 1 keep_null_pointer "(\<lambda>_. \<lparr>m_zero_suffixed = [], m_ptr = Caller 4\<rparr>)
        (1 := \<lparr>m_zero_suffixed = [65, 66 :: 8 word], m_ptr = Owned 1\<rparr>)" "\<lambda>_. []"]
    move_semantics [of 0 2 make_zero_length "(\<lambda>_. \<lparr>m_zero_suffixed = [], m_ptr = Caller 4\<rparr>)
        (1 := \<lparr>m_zero_suffixed = [65, 66 :: 8 word], m_ptr = Owned 1\<rparr>)" "\<lambda>_. []"]
  by (simp add: get_def c_str_def get_ptr_nullptr_def)

subsection \<open>Swap\<close>





subsection \<open>Copy construction and copy assignment\<close>

lemma copy_one:
  fixes st :: "'w::len word store"
  assumes ne: "this \<noteq> other"
    and t_eq: "st' this = (if m_ptr (st other) = Owned other
      then \<lparr>m_zero_suffixed = m_zero_suffixed (st other), m_ptr = Owned this\<rparr>
      else (b :: 'w word basic_builder)\<lparr>m_ptr := m_ptr (st other)\<rparr>)"
    and rest: "\<And>j. j \<noteq> this \<Longrightarrow> st' j = st j"
  shows "(get st other = c_str other \<longrightarrow>
            m_zero_suffixed (st' this) = m_zero_suffixed (st other) \<and> get st' this = c_str this
          \<and> get st' this \<noteq> get st' other
          \<and> chars_at mem st' (get st' this) = chars_at mem st (get st other)
          \<and> builder_length nb mem st' this = builder_length nb mem st other
          \<and> (\<forall>x. chars_at mem (st'(other := x)) (get st' this) = chars_at mem st' (get st' this))
          \<and> (\<forall>x. chars_at mem (st'(this := x)) (get st' other) = chars_at mem st' (get st' other)))
       \<and> (get st other \<noteq> c_str other \<longrightarrow> get st' this = get st other)
       \<and> st' other = st other
       \<and> (\<forall>j. j \<noteq> this \<longrightarrow> st' j = st j)"
proof -
  have o: "st' other = st other" using ne rest by auto
  show ?thesis
  proof (cases "m_ptr (st other) = Owned other")
    case True
    then have t: "st' this = \<lparr>m_zero_suffixed = m_zero_suffixed (st other), m_ptr = Owned this\<rparr>"
      using t_eq by simp
    have c: "chars_at mem st' (Owned this) = chars_at mem st (Owned other)"
      by (simp add: chars_at_Owned t)
    have l: "builder_length nb mem st' this = builder_length nb mem st other"
      by (rule builder_length_cong [OF _ True c]) (simp add: t)
    from True t o ne c l rest show ?thesis
      by (simp add: get_def c_str_def chars_at_upd_other)
  next
    case False
    with t_eq o rest show ?thesis
      by (simp add: get_def c_str_def)
  qed
qed

text \<open>
  Claim C7. For a copy between two distinct objects, by the constructor or by
  assignment: when the source owns its string, the destination's string member is a copy
  of it and the destination's pointer is its own \<^verbatim>\<open>c_str()\<close>, which differs from the
  source's \<^verbatim>\<open>get()\<close>, reads the same characters and gives the same \<^verbatim>\<open>length()\<close>;
  whatever is later stored in one of the two objects, the other one reads the same
  characters as before. Otherwise the destination's \<^verbatim>\<open>get()\<close> is the source's pointer
  value. The source and every third object are unchanged, and assigning an object to
  itself changes nothing.
\<close>

theorem copy_semantics:
  fixes st :: "'w::len word store"
  shows "(this \<noteq> other \<longrightarrow>
          (\<forall>st' \<in> {copy_ctor this other st, copy_assign this other st}.
             (get st other = c_str other \<longrightarrow>
                m_zero_suffixed (st' this) = m_zero_suffixed (st other) \<and> get st' this = c_str this
              \<and> get st' this \<noteq> get st' other
              \<and> chars_at mem st' (get st' this) = chars_at mem st (get st other)
              \<and> builder_length nb mem st' this = builder_length nb mem st other
              \<and> (\<forall>x. chars_at mem (st'(other := x)) (get st' this) = chars_at mem st' (get st' this))
              \<and> (\<forall>x. chars_at mem (st'(this := x)) (get st' other) = chars_at mem st' (get st' other)))
           \<and> (get st other \<noteq> c_str other \<longrightarrow> get st' this = get st other)
           \<and> st' other = st other
           \<and> (\<forall>j. j \<noteq> this \<longrightarrow> st' j = st j)))
       \<and> copy_assign this this st = st"
proof (rule conjI; (intro impI ballI)?)
  show "copy_assign this this st = st" by (simp add: copy_assign_def)
next
  fix st' assume ne: "this \<noteq> other"
    and "st' \<in> {copy_ctor this other st, copy_assign this other st}"
  then consider "st' = copy_ctor this other st" | "st' = copy_assign this other st" by auto
  then show "(get st other = c_str other \<longrightarrow>
                m_zero_suffixed (st' this) = m_zero_suffixed (st other) \<and> get st' this = c_str this
              \<and> get st' this \<noteq> get st' other
              \<and> chars_at mem st' (get st' this) = chars_at mem st (get st other)
              \<and> builder_length nb mem st' this = builder_length nb mem st other
              \<and> (\<forall>x. chars_at mem (st'(other := x)) (get st' this) = chars_at mem st' (get st' this))
              \<and> (\<forall>x. chars_at mem (st'(this := x)) (get st' other) = chars_at mem st' (get st' other)))
           \<and> (get st other \<noteq> c_str other \<longrightarrow> get st' this = get st other)
           \<and> st' other = st other
           \<and> (\<forall>j. j \<noteq> this \<longrightarrow> st' j = st j)"
  proof cases
    case 1
    show ?thesis
      by (rule copy_one [OF ne, where b = "\<lparr>m_zero_suffixed = [], m_ptr = Null\<rparr>"])
         (use ne in \<open>simp_all add: 1 copy_ctor_def copy_used_member_this copy_used_member_other
            member_init_other member_init_this\<close>)
  next
    case 2
    show ?thesis
      by (rule copy_one [OF ne, where b = "st this"])
         (use ne in \<open>simp_all add: 2 copy_assign_def copy_used_member_this copy_used_member_other\<close>)
  qed
qed

theorem copy_semantics_witness:
  "m_zero_suffixed (copy_ctor 0 1 ((\<lambda>_. \<lparr>m_zero_suffixed = [], m_ptr = ZeroAddr\<rparr>)
        (1 := \<lparr>m_zero_suffixed = [65, 66 :: 8 word], m_ptr = Owned 1\<rparr>)) 0) = [65, 66]
   \<and> get (copy_assign 0 1 ((\<lambda>_. \<lparr>m_zero_suffixed = [], m_ptr = ZeroAddr\<rparr>)
        (1 := \<lparr>m_zero_suffixed = [65, 66 :: 8 word], m_ptr = Owned 1\<rparr>))) 0 = Owned 0
   \<and> get (copy_assign 0 2 ((\<lambda>_. \<lparr>m_zero_suffixed = [], m_ptr = ZeroAddr\<rparr>)
        (1 := \<lparr>m_zero_suffixed = [65, 66 :: 8 word], m_ptr = Owned 1\<rparr>))) 0 = ZeroAddr"
  using
    copy_semantics [of 0 1 "(\<lambda>_. \<lparr>m_zero_suffixed = [], m_ptr = ZeroAddr\<rparr>)
        (1 := \<lparr>m_zero_suffixed = [65, 66 :: 8 word], m_ptr = Owned 1\<rparr>)" "\<lambda>_. []" make_zero_length]
    copy_semantics [of 0 2 "(\<lambda>_. \<lparr>m_zero_suffixed = [], m_ptr = ZeroAddr\<rparr>)
        (1 := \<lparr>m_zero_suffixed = [65, 66 :: 8 word], m_ptr = Owned 1\<rparr>)" "\<lambda>_. []" make_zero_length]
  by (simp add: get_def c_str_def)

subsection \<open>\<^verbatim>\<open>length()\<close>\<close>

text \<open>
  Claim C8. Where \<^verbatim>\<open>get()\<close> points to characters that contain a null character,
  \<^verbatim>\<open>length()\<close> is the index of the first one: the number of characters before it, all
  of them non-null. For a builder constructed from a range whose last element is not
  null and whose first null character is at index \<open>k\<close>, the string member holds the
  whole range and \<^verbatim>\<open>length()\<close> is \<open>k\<close>. Under \<^verbatim>\<open>keep_null_pointer\<close> a null \<^verbatim>\<open>get()\<close>
  gives 0. The builder stores no length: for a pointer into the caller's memory the
  result is the scan of that memory as it is at the call.
\<close>

theorem length_semantics:
  fixes st :: "'w::len word store"
  shows "(chars_at mem st (get st this) = Some cs \<and> 0 \<in> set cs \<longrightarrow>
            (let n = length (takeWhile (\<lambda>c. c \<noteq> 0) cs)
             in builder_length nb mem st this = Some n
                \<and> n < length cs \<and> cs ! n = 0 \<and> (\<forall>j<n. cs ! j \<noteq> 0)))
       \<and> (let xs = range_elems r; st' = construct nb this (SizedRange r) st
          in xs \<noteq> [] \<and> last xs \<noteq> 0 \<and> k < length xs \<and> xs ! k = 0 \<and> (\<forall>j<k. xs ! j \<noteq> 0) \<longrightarrow>
               m_zero_suffixed (st' this) = xs \<and> get st' this = c_str this
             \<and> builder_length nb mem st' this = Some k)
       \<and> (nb = keep_null_pointer \<and> get st this = Null \<longrightarrow> builder_length nb mem st this = Some 0)
       \<and> (get st this = Caller a \<longrightarrow> (\<forall>mem'. builder_length nb mem' st this = traits_length (mem' a)))"
proof (intro conjI)
  show "chars_at mem st (get st this) = Some cs \<and> 0 \<in> set cs \<longrightarrow>
            (let n = length (takeWhile (\<lambda>c. c \<noteq> 0) cs)
             in builder_length nb mem st this = Some n
                \<and> n < length cs \<and> cs ! n = 0 \<and> (\<forall>j<n. cs ! j \<noteq> 0))"
  proof
    assume a: "chars_at mem st (get st this) = Some cs \<and> 0 \<in> set cs"
    then have "m_ptr (st this) \<noteq> Null"
      by (auto simp: get_def chars_at_def)
    then have "builder_length nb mem st this = scan mem st (m_ptr (st this))"
      by (rule builder_length_scan)
    also have "\<dots> = Some (length (takeWhile (\<lambda>c. c \<noteq> 0) cs))"
      using a by (intro scan_terminated) (simp_all add: get_def)
    finally show "let n = length (takeWhile (\<lambda>c. c \<noteq> 0) cs)
             in builder_length nb mem st this = Some n
                \<and> n < length cs \<and> cs ! n = 0 \<and> (\<forall>j<n. cs ! j \<noteq> 0)"
      using takeWhile_first_null [of cs] a by (simp add: Let_def)
  qed
next
  show "let xs = range_elems r; st' = construct nb this (SizedRange r) st
          in xs \<noteq> [] \<and> last xs \<noteq> 0 \<and> k < length xs \<and> xs ! k = 0 \<and> (\<forall>j<k. xs ! j \<noteq> 0) \<longrightarrow>
               m_zero_suffixed (st' this) = xs \<and> get st' this = c_str this
             \<and> builder_length nb mem st' this = Some k"
    unfolding Let_def
  proof
    let ?xs = "range_elems r" and ?st' = "construct nb this (SizedRange r) st"
    assume a: "?xs \<noteq> [] \<and> last ?xs \<noteq> 0 \<and> k < length ?xs \<and> ?xs ! k = 0 \<and> (\<forall>j<k. ?xs ! j \<noteq> 0)"
    then have t: "?st' this = \<lparr>m_zero_suffixed = ?xs, m_ptr = Owned this\<rparr>"
      by (simp add: construct_SizedRange_this)
    have n: "length (takeWhile (\<lambda>c. c \<noteq> 0) (?xs @ [0])) = k"
      using a by (intro first_null_index) (auto simp: nth_append)
    have "builder_length nb mem ?st' this = scan mem ?st' (m_ptr (?st' this))"
      by (rule builder_length_scan) (simp add: t)
    also have "\<dots> = Some (length (takeWhile (\<lambda>c. c \<noteq> 0) (?xs @ [0])))"
      by (rule scan_terminated) (simp_all add: t chars_at_Owned)
    finally have "builder_length nb mem ?st' this = Some k"
      using n by simp
    with t show "m_zero_suffixed (?st' this) = ?xs \<and> get ?st' this = c_str this
             \<and> builder_length nb mem ?st' this = Some k"
      by (simp add: get_def c_str_def)
  qed
next
  show "nb = keep_null_pointer \<and> get st this = Null \<longrightarrow> builder_length nb mem st this = Some 0"
    by (simp add: builder_length_def get_def)
next
  show "get st this = Caller a \<longrightarrow> (\<forall>mem'. builder_length nb mem' st this = traits_length (mem' a))"
    by (cases nb) (simp_all add: builder_length_def get_def scan_def chars_at_def)
qed

theorem length_semantics_witness:
  "builder_length make_zero_length (\<lambda>a. if a = 100 then [65, 66, 0, 67, 0 :: 8 word] else [])
      (\<lambda>_. \<lparr>m_zero_suffixed = [], m_ptr = Caller 100\<rparr>) 0 = Some (Suc (Suc 0))
   \<and> builder_length make_zero_length (\<lambda>_. [])
      (construct make_zero_length 0 (SizedRange \<lparr>range_data = 100, range_elems = [65, 0, 66 :: 8 word]\<rparr>)
         (\<lambda>_. \<lparr>m_zero_suffixed = [], m_ptr = Null\<rparr>)) 0 = Some (Suc 0)
   \<and> builder_length keep_null_pointer (\<lambda>_. [])
      (\<lambda>_. \<lparr>m_zero_suffixed = [65 :: 8 word], m_ptr = Null\<rparr>) 0 = Some 0"
  using
    length_semantics [of "\<lambda>a. if a = 100 then [65, 66, 0, 67, 0] else []"
      "\<lambda>_. \<lparr>m_zero_suffixed = [], m_ptr = Caller 100\<rparr>" 0 "[65, 66, 0, 67, 0 :: 8 word]"
      make_zero_length "\<lparr>range_data = 100, range_elems = []\<rparr>" 0 100]
    length_semantics [of "\<lambda>_. []" "\<lambda>_. \<lparr>m_zero_suffixed = [], m_ptr = Null\<rparr>" 0 "[]"
      make_zero_length "\<lparr>range_data = 100, range_elems = [65, 0, 66 :: 8 word]\<rparr>" 1 100]
    length_semantics [of "\<lambda>_. []" "\<lambda>_. \<lparr>m_zero_suffixed = [65 :: 8 word], m_ptr = Null\<rparr>" 0 "[]"
      keep_null_pointer "\<lparr>range_data = 100, range_elems = []\<rparr>" 0 100]
  by (simp add: Let_def get_def chars_at_def)

subsection \<open>No null pointer under \<^verbatim>\<open>make_zero_length\<close>\<close>

lemma construct_never_null: "m_ptr (construct make_zero_length this s st this) \<noteq> Null"
  by (cases s) (simp_all add: construct_this get_ptr_nullptr_def)

lemma exec_never_null:
  fixes s :: "nat set \<times> 'w::len word store"
  assumes "never_null s"
  shows "never_null (exec make_zero_length s op)"
proof (cases s)
  case (Pair L st)
  with assms have inv: "\<And>i. i \<in> L \<Longrightarrow> m_ptr (st i) \<noteq> Null"
    by (simp add: never_null_def)
  show ?thesis
  proof (cases op)
    case (Construct this src)
    have "m_ptr (construct make_zero_length this src st j) \<noteq> Null"
      if "j \<in> L \<or> j = this" for j
      using that inv [of j]
      by (cases "j = this") (auto simp: construct_never_null construct_other)
    with Construct Pair inv show ?thesis
      by (auto simp: never_null_def)
  next
    case (Default this)
    have "m_ptr (default_ctor make_zero_length this st j) \<noteq> Null"
      if "j \<in> L \<or> j = this" for j
      using that inv [of j]
      by (cases "j = this") (auto simp: default_ctor_eq construct_never_null construct_other)
    with Default Pair inv show ?thesis
      by (auto simp: never_null_def)
  next
    case (CopyCtor this other)
    have "m_ptr (copy_ctor this other st j) \<noteq> Null"
      if "this \<noteq> other" "other \<in> L" "j \<in> L \<or> j = this" for j
      using that inv [of other] inv [of j]
      by (cases "j = this")
         (auto simp: copy_ctor_def copy_used_member_this copy_used_member_other member_init_other)
    with CopyCtor Pair inv show ?thesis
      by (auto simp: never_null_def)
  next
    case (MoveCtor this other)
    have "m_ptr (move_ctor make_zero_length this other st j) \<noteq> Null"
      if "this \<noteq> other" "other \<in> L" "j \<in> L \<or> j = this" for j
      using that inv [of other] inv [of j]
      by (cases "j = this"; cases "j = other")
         (auto simp: move_ctor_def move_used_member_this move_used_member_source
            move_used_member_other member_init_other get_ptr_nullptr_def)
    with MoveCtor Pair inv show ?thesis
      by (auto simp: never_null_def)
  next
    case (CopyAssign this other)
    have "m_ptr (copy_assign this other st j) \<noteq> Null"
      if "other \<in> L" "j \<in> L" for j
      using that inv [of other] inv [of j]
      by (cases "j = this"; cases "this = other")
         (auto simp: copy_assign_def copy_used_member_this copy_used_member_other)
    with CopyAssign Pair inv show ?thesis
      by (auto simp: never_null_def)
  next
    case (MoveAssign this other)
    have "m_ptr (move_assign make_zero_length this other st j) \<noteq> Null"
      if "other \<in> L" "j \<in> L" for j
      using that inv [of other] inv [of j]
      by (cases "this = other"; cases "j = this"; cases "j = other")
         (auto simp: move_assign_def move_used_member_this move_used_member_source
            move_used_member_other get_ptr_nullptr_def)
    with MoveAssign Pair inv show ?thesis
      by (auto simp: never_null_def)
  next
    case (Swap a b)
    have "m_ptr (swap_builder a b st j) \<noteq> Null"
      if "a \<in> L" "b \<in> L" "j \<in> L" for j
      using that inv [of a] inv [of b] inv [of j]
      by (cases "a = b"; cases "j = a"; cases "j = b")
         (auto simp: swap_builder_self swap_builder_this swap_builder_that swap_builder_other)
    with Swap Pair inv show ?thesis
      by (auto simp: never_null_def)
  next
    case (Destroy this)
    with Pair inv show ?thesis
      by (auto simp: never_null_def)
  qed
qed

lemma foldl_exec_never_null:
  fixes s :: "nat set \<times> 'w::len word store"
  shows "never_null s \<Longrightarrow> never_null (foldl (exec make_zero_length) s ops)"
  by (induction ops arbitrary: s) (simp_all add: exec_never_null)

text \<open>
  Claim C9. Under \<^verbatim>\<open>make_zero_length\<close>, after any sequence of constructions from any
  kind of source, copies, moves, swaps and destructions, no constructed object, a
  moved-from one included, has a null \<^verbatim>\<open>get()\<close>, so the scan of \<^verbatim>\<open>length()\<close> always starts
  at a pointer that can be read.
\<close>

theorem zero_length_never_null:
  fixes st0 :: "'w::len word store"
  shows "let (L, st) = run make_zero_length st0 ops
         in \<forall>i \<in> L. get st i \<noteq> Null \<and> chars_at mem st (get st i) \<noteq> None"
proof -
  have "never_null (run make_zero_length st0 ops)"
    unfolding run_def by (rule foldl_exec_never_null) (simp add: never_null_def)
  then show ?thesis
    by (auto simp: never_null_def get_def chars_at_def split: prod.splits pointer.splits)
qed

theorem zero_length_never_null_witness:
  "get (snd (run make_zero_length (\<lambda>_. \<lparr>m_zero_suffixed = [], m_ptr = Null\<rparr>)
      [Construct 0 (SizedRange \<lparr>range_data = 100, range_elems = [65 :: 8 word]\<rparr>),
       Construct 1 (Pointer Null), MoveCtor 2 0, Swap 1 2, CopyAssign 2 0])) 0 \<noteq> Null"
  using zero_length_never_null [of "\<lambda>_. \<lparr>m_zero_suffixed = [], m_ptr = Null\<rparr>"
      "[Construct 0 (SizedRange \<lparr>range_data = 100, range_elems = [65 :: 8 word]\<rparr>),
       Construct 1 (Pointer Null), MoveCtor 2 0, Swap 1 2, CopyAssign 2 0]" "\<lambda>_. []"]
  by (simp add: run_def split: prod.splits)

subsection \<open>A range that is one null character\<close>

text \<open>
  Claim C10. A range of exactly one element, the null character, is not treated as
  empty: \<^verbatim>\<open>get()\<close> is the range's own data address, not the static zero value, the string
  member stays empty, and \<^verbatim>\<open>length()\<close> is 0 (the caller's memory holding the range at
  its data address).
\<close>

theorem single_null_element:
  fixes st :: "'w::len word store"
  assumes "range_elems r = [0]" and "range_in_mem mem r"
  shows "let st' = construct nb this (SizedRange r) st
         in get st' this = cdata r \<and> get st' this \<noteq> ZeroAddr
            \<and> m_zero_suffixed (st' this) = [] \<and> get st' this \<noteq> c_str this
            \<and> builder_length nb mem st' this = Some 0"
proof -
  from assms have "take 1 (mem (range_data r)) = [0]"
    by (simp add: range_in_mem_def)
  then obtain cs where "mem (range_data r) = 0 # cs"
    by (cases "mem (range_data r)") auto
  then have "scan mem (construct nb this (SizedRange r) st) (Caller (range_data r)) = Some 0"
    by (simp add: scan_def chars_at_def)
  with assms(1) show ?thesis
    by (cases nb) (simp_all add: Let_def construct_SizedRange_this get_def cdata_def c_str_def builder_length_def)
qed

theorem single_null_element_witness:
  "builder_length make_zero_length (\<lambda>a. if a = 100 then [0, 65] else [])
     (construct make_zero_length 0 (SizedRange \<lparr>range_data = 100, range_elems = [0 :: 8 word]\<rparr>)
        (\<lambda>_. \<lparr>m_zero_suffixed = [1], m_ptr = Null\<rparr>)) 0 = Some 0
   \<and> get (construct make_zero_length 0 (SizedRange \<lparr>range_data = 100, range_elems = [0 :: 8 word]\<rparr>)
        (\<lambda>_. \<lparr>m_zero_suffixed = [1], m_ptr = Null\<rparr>)) 0 = Caller 100"
  using single_null_element [of "\<lparr>range_data = 100, range_elems = [0 :: 8 word]\<rparr>"
      "\<lambda>a. if a = 100 then [0, 65] else []" make_zero_length 0 "\<lambda>_. \<lparr>m_zero_suffixed = [1], m_ptr = Null\<rparr>"]
  by (simp add: Let_def range_in_mem_def cdata_def)

end
